theory Spec2Isabelle
  imports Main
begin

section \<open>The elm-watch browser client: data model\<close>

text \<open>
  The client is a small Elm-architecture program written in TypeScript: a \<open>Model\<close>, a
  \<open>Msg\<close> type, a pure \<open>update\<close> function returning the next model and a list of \<open>Cmd\<close>s.
  Tagged unions become datatypes and the \<open>Model\<close> object becomes a record.

  A JavaScript \<open>Date\<close> is represented by what \<open>getTime()\<close> returns, an integer number of
  milliseconds; attempt numbers and compiled timestamps are JavaScript numbers that the
  program only ever creates as integers, so they are \<open>int\<close>.

  Where two unions of the source use the same tag, one of them gets a prefix here:
  the statuses reported by the server are \<open>ServerBusy\<close> and \<open>ServerCompileError\<close>
  (tags \<open>Busy\<close> and \<open>CompileError\<close> of \<open>StatusChanged\<close>), the outbound messages are
  \<open>ToServerFocusedTab\<close> and \<open>ToServerChangedCompilationMode\<close>.
\<close>

type_synonym Date = int

datatype CompilationMode = debug | standard | optimize

text \<open>
  \<open>CompilationModeWithProxy\<close> is declared in a file that is not part of the sources at hand;
  the client compares against the string \<open>"proxy"\<close>, the pseudo-mode of the stub file that
  stands in for compiled code.
\<close>

datatype CompilationModeWithProxy = Mode CompilationMode | proxy

text \<open>The send key is a \<open>unique symbol\<close>: a type with one value.\<close>

datatype SendKey = SEND_KEY_DO_NOT_USE_ALL_THE_TIME

datatype Status =
    Busy Date "CompilationMode option"
  | CompileError Date
  | Connecting Date int
  | EvalError Date
  | Idle Date SendKey
  | SleepingBeforeReconnect Date int
  | UnexpectedError Date string

record Model =
  status :: Status
  elmCompiledTimestamp :: int
  canHotReload :: bool
  uiExpanded :: bool

datatype UiMsg =
    ChangedCompilationMode CompilationMode SendKey
  | PressedChevron
  | PressedReconnectNow

datatype 'd Msg =
    EvalErrored Date
  | FocusedTab
  | PageVisibilityChangedToVisible Date
  | SleepBeforeReconnectDone Date
  | UiMsg Date UiMsg
  | WebSocketClosed Date
  | WebSocketConnected Date
  | WebSocketMessageReceived Date 'd

datatype WebSocketToServerMessage =
    ToServerFocusedTab
  | ToServerChangedCompilationMode CompilationMode

datatype ServerStatus =
    AlreadyUpToDate
  | ServerBusy CompilationMode
  | ClientError string
  | ServerCompileError

text \<open>\<open>SuccessfullyCompiled code compilationMode elmCompiledTimestamp\<close>.\<close>

datatype WebSocketToClientMessage =
    StatusChanged ServerStatus
  | SuccessfullyCompiled string CompilationMode int

datatype Cmd =
    Eval string
  | Reconnect int
  | ReloadPage
  | Render Model bool
  | SendMessage WebSocketToServerMessage SendKey
  | SleepBeforeReconnect int

section \<open>Decoding inbound frames\<close>

text \<open>
  The decoders come from a library and from \<open>WebSocketMessages\<close>, neither of which is in
  the sources. A decoder either returns a value or throws; what it throws is one of the
  three things \<open>possiblyDecodeErrorToString\<close> tells apart, each carrying the text that
  function extracts from it (\<open>format()\<close>, \<open>message\<close>, \<open>repr\<close>). The decoder for inbound
  frames, \<open>decodeWebSocketToClientMessage (Decode.string data)\<close>, is a parameter
  \<open>decode\<close> of the transition function.
\<close>

datatype Thrown =
    DecoderError string
  | Error string
  | NotAnError string

fun possiblyDecodeErrorToString :: "Thrown \<Rightarrow> string" where
  "possiblyDecodeErrorToString (DecoderError formatted) = formatted"
| "possiblyDecodeErrorToString (Error message) = message"
| "possiblyDecodeErrorToString (NotAnError repr) = repr"

datatype ParseWebSocketMessageDataResult =
    ParseError string
  | Success WebSocketToClientMessage

definition parseWebSocketMessageData ::
  "('d \<Rightarrow> Thrown + WebSocketToClientMessage) \<Rightarrow> 'd \<Rightarrow> ParseWebSocketMessageDataResult" where
  "parseWebSocketMessageData decode data =
     (case decode data of
        Inr message \<Rightarrow> Success message
      | Inl unknownError \<Rightarrow>
          ParseError (''Failed to decode web socket message sent from the server:'' @ [CHR 0x0A]
                      @ possiblyDecodeErrorToString unknownError))"

section \<open>The transition function\<close>

definition retryWaitMs :: "int \<Rightarrow> int" where
  "retryWaitMs attemptNumber = min (1000 + 10 * attemptNumber ^ 2) (1000 * 60)"

definition init :: "int \<Rightarrow> Date \<Rightarrow> Model \<times> Cmd list" where
  "init INITIAL_ELM_COMPILED_TIMESTAMP date =
     (let model = \<lparr> status = Connecting date 1,
                    elmCompiledTimestamp = INITIAL_ELM_COMPILED_TIMESTAMP,
                    canHotReload = False,
                    uiExpanded = False \<rparr>
      in (model, [Render model False]))"

fun reconnect :: "Model \<Rightarrow> Date \<Rightarrow> bool \<Rightarrow> Model \<times> Cmd list" where
  "reconnect model date force =
     (case status model of
        SleepingBeforeReconnect sleepDate attemptNumber \<Rightarrow>
          if date - sleepDate \<ge> retryWaitMs attemptNumber \<or> force
          then (model\<lparr>status := Connecting date attemptNumber\<rparr>,
                [Reconnect (elmCompiledTimestamp model)])
          else (model, [])
      | _ \<Rightarrow> (model, []))"

fun statusChanged :: "Date \<Rightarrow> ServerStatus \<Rightarrow> Model \<Rightarrow> Model" where
  "statusChanged date AlreadyUpToDate model =
     model\<lparr>status := Idle date SEND_KEY_DO_NOT_USE_ALL_THE_TIME, canHotReload := True\<rparr>"
| "statusChanged date (ServerBusy compilationMode) model =
     model\<lparr>status := Busy date (Some compilationMode)\<rparr>"
| "statusChanged date (ClientError message) model =
     model\<lparr>status := UnexpectedError date message, uiExpanded := True\<rparr>"
| "statusChanged date ServerCompileError model =
     model\<lparr>status := CompileError date\<rparr>"

fun onWebSocketToClientMessage ::
  "CompilationModeWithProxy \<Rightarrow> Date \<Rightarrow> WebSocketToClientMessage \<Rightarrow> Model \<Rightarrow> Model \<times> Cmd list" where
  "onWebSocketToClientMessage COMPILATION_MODE date (StatusChanged st) model =
     (statusChanged date st model, [])"
| "onWebSocketToClientMessage COMPILATION_MODE date
       (SuccessfullyCompiled code compilationMode compiledTimestamp) model =
     (if \<not> canHotReload model \<or> Mode compilationMode \<noteq> COMPILATION_MODE
      then (model, [ReloadPage])
      else (model\<lparr>status := Idle date SEND_KEY_DO_NOT_USE_ALL_THE_TIME,
                   elmCompiledTimestamp := compiledTimestamp\<rparr>,
            [Eval code]))"

fun onUiMsg :: "Date \<Rightarrow> UiMsg \<Rightarrow> Model \<Rightarrow> Model \<times> Cmd list" where
  "onUiMsg date (ChangedCompilationMode compilationMode sendKey) model =
     (model\<lparr>status := Busy date (Some compilationMode)\<rparr>,
      [SendMessage (ToServerChangedCompilationMode compilationMode) sendKey])"
| "onUiMsg date PressedChevron model = (model\<lparr>uiExpanded := \<not> uiExpanded model\<rparr>, [])"
| "onUiMsg date PressedReconnectNow model = reconnect model date True"

text \<open>
  The attempt number after a close: \<open>"attemptNumber" in model.status\<close> holds for the two
  statuses that have the field.
\<close>

fun nextAttemptNumber :: "Status \<Rightarrow> int" where
  "nextAttemptNumber (Connecting _ attemptNumber) = attemptNumber + 1"
| "nextAttemptNumber (SleepingBeforeReconnect _ attemptNumber) = attemptNumber + 1"
| "nextAttemptNumber _ = 1"

fun update ::
  "CompilationModeWithProxy \<Rightarrow> ('d \<Rightarrow> Thrown + WebSocketToClientMessage) \<Rightarrow>
   'd Msg \<Rightarrow> Model \<Rightarrow> Model \<times> Cmd list" where
  "update COMPILATION_MODE decode (EvalErrored date) model =
     (model\<lparr>status := EvalError date, uiExpanded := True\<rparr>, [])"
| "update COMPILATION_MODE decode FocusedTab model =
     (model,
      case status model of
        Idle _ sendKey \<Rightarrow> [SendMessage ToServerFocusedTab sendKey]
      | _ \<Rightarrow> [])"
| "update COMPILATION_MODE decode (PageVisibilityChangedToVisible date) model =
     reconnect model date True"
| "update COMPILATION_MODE decode (SleepBeforeReconnectDone date) model =
     reconnect model date False"
| "update COMPILATION_MODE decode (UiMsg date msg) model = onUiMsg date msg model"
| "update COMPILATION_MODE decode (WebSocketClosed date) model =
     (let attemptNumber = nextAttemptNumber (status model)
      in (model\<lparr>status := SleepingBeforeReconnect date attemptNumber\<rparr>,
          [SleepBeforeReconnect attemptNumber]))"
| "update COMPILATION_MODE decode (WebSocketConnected date) model =
     (model\<lparr>status := Busy date None\<rparr>, [])"
| "update COMPILATION_MODE decode (WebSocketMessageReceived date data) model =
     (case parseWebSocketMessageData decode data of
        Success message \<Rightarrow> onWebSocketToClientMessage COMPILATION_MODE date message model
      | ParseError message \<Rightarrow>
          (model\<lparr>status := UnexpectedError date message, uiExpanded := True\<rparr>, []))"

text \<open>
  The transition function handed to the program loop in \<open>run\<close>: \<open>update\<close>, followed by a
  \<open>Render\<close> of the new model.
\<close>

fun isUiMsg :: "'d Msg \<Rightarrow> bool" where
  "isUiMsg (UiMsg _ _) = True"
| "isUiMsg _ = False"

definition runUpdate ::
  "CompilationModeWithProxy \<Rightarrow> ('d \<Rightarrow> Thrown + WebSocketToClientMessage) \<Rightarrow>
   'd Msg \<Rightarrow> Model \<Rightarrow> Model \<times> Cmd list" where
  "runUpdate COMPILATION_MODE decode msg model =
     (let (newModel, cmds) = update COMPILATION_MODE decode msg model
      in (newModel, cmds @ [Render newModel (isUiMsg msg)]))"

text \<open>Dispatching a sequence of messages, one at a time, collecting the commands.\<close>

fun dispatchAll ::
  "CompilationModeWithProxy \<Rightarrow> ('d \<Rightarrow> Thrown + WebSocketToClientMessage) \<Rightarrow>
   'd Msg list \<Rightarrow> Model \<Rightarrow> Model" where
  "dispatchAll COMPILATION_MODE decode [] model = model"
| "dispatchAll COMPILATION_MODE decode (msg # msgs) model =
     dispatchAll COMPILATION_MODE decode msgs (fst (runUpdate COMPILATION_MODE decode msg model))"

text \<open>
  Reading a status's attempt number, where it has one, and the messages under which a
  status that has an attempt number keeps having one (everything except an opened
  connection, an inbound frame, a failed evaluation and a change of compilation mode,
  which replace the status by one without the field).
\<close>

fun attemptNumberOf :: "Status \<Rightarrow> int option" where
  "attemptNumberOf (Connecting _ attemptNumber) = Some attemptNumber"
| "attemptNumberOf (SleepingBeforeReconnect _ attemptNumber) = Some attemptNumber"
| "attemptNumberOf _ = None"

fun isWebSocketClosed :: "'d Msg \<Rightarrow> bool" where
  "isWebSocketClosed (WebSocketClosed _) = True"
| "isWebSocketClosed _ = False"

fun keepsAttemptNumber :: "'d Msg \<Rightarrow> bool" where
  "keepsAttemptNumber (WebSocketConnected _) = False"
| "keepsAttemptNumber (WebSocketMessageReceived _ _) = False"
| "keepsAttemptNumber (EvalErrored _) = False"
| "keepsAttemptNumber (UiMsg _ (ChangedCompilationMode _ _)) = False"
| "keepsAttemptNumber _ = True"

section \<open>Program introspection\<close>

text \<open>
  \<open>checkInitializedElmAppsStatus\<close> decodes \<open>window.Elm\<close> with the library decoder
  \<open>ProgramTypes\<close>, which returns the program types found or throws. The decoder is a
  parameter here, as is the \<open>window\<close> it reads; what the function does with the outcome is
  the code below. The program types are the six strings of the source; \<open>programTypeName\<close>
  gives the string back.
\<close>

datatype ProgramType =
    Platform_worker
  | Browser_sandbox
  | Browser_element
  | Browser_document
  | Browser_application
  | Html

fun programTypeName :: "ProgramType \<Rightarrow> string" where
  "programTypeName Platform_worker = ''Platform.worker''"
| "programTypeName Browser_sandbox = ''Browser.sandbox''"
| "programTypeName Browser_element = ''Browser.element''"
| "programTypeName Browser_document = ''Browser.document''"
| "programTypeName Browser_application = ''Browser.application''"
| "programTypeName Html = ''Html''"

datatype Toggled = Disabled string | Enabled

datatype InitializedElmAppsStatus =
    DebuggerModeStatus Toggled
  | DecodeError string
  | NoProgramsAtAll

text \<open>\<open>Array.prototype.join\<close> on an array of strings.\<close>

fun join :: "string list \<Rightarrow> string \<Rightarrow> string" where
  "join [] separator = []"
| "join [x] separator = x"
| "join (x # y # ys) separator = x @ separator @ join (y # ys) separator"

definition humanList :: "string list \<Rightarrow> string \<Rightarrow> string" where
  "humanList list joinWord =
     (let len = length list
      in if len \<le> 1 then join list []
         else if len = 2 then join list ('' '' @ joinWord @ '' '')
         else join (take (len - 2) list) '','' @ '', ''
              @ join (drop (len - 2) list) ('' '' @ joinWord @ '' ''))"

text \<open>
  \<open>new Set(array)\<close> adds the elements one by one; adding an element already present changes
  nothing, and iteration is in insertion order. The set is the list of its elements in
  that order.
\<close>

definition setAdd :: "'a list \<Rightarrow> 'a \<Rightarrow> 'a list" where
  "setAdd s x = (if x \<in> set s then s else s @ [x])"

definition newSet :: "'a list \<Rightarrow> 'a list" where
  "newSet xs = foldl setAdd [] xs"

definition noDebuggerReason :: "ProgramType list \<Rightarrow> string" where
  "noDebuggerReason noDebuggerProgramTypes =
     ''The Elm debugger isn't supported by ''
     @ humanList (map (\<lambda>programType. ''`'' @ programTypeName programType @ ''`'')
                      noDebuggerProgramTypes) ''and''
     @ '' programs.''"

fun noDebuggerSupport :: "ProgramType \<Rightarrow> bool" where
  "noDebuggerSupport Platform_worker = True"
| "noDebuggerSupport Html = True"
| "noDebuggerSupport Browser_sandbox = False"
| "noDebuggerSupport Browser_element = False"
| "noDebuggerSupport Browser_document = False"
| "noDebuggerSupport Browser_application = False"

definition checkInitializedElmAppsStatus ::
  "CompilationModeWithProxy \<Rightarrow> ('w \<Rightarrow> Thrown + ProgramType list) \<Rightarrow> 'w
   \<Rightarrow> InitializedElmAppsStatus" where
  "checkInitializedElmAppsStatus COMPILATION_MODE ProgramTypes window =
     (case ProgramTypes window of
        Inl unknownError \<Rightarrow>
          if COMPILATION_MODE = proxy then DebuggerModeStatus Enabled
          else DecodeError (possiblyDecodeErrorToString unknownError)
      | Inr programTypes \<Rightarrow>
          if length programTypes = 0 then NoProgramsAtAll
          else
            let noDebugger = filter noDebuggerSupport programTypes
            in DebuggerModeStatus
                 (if length noDebugger = length programTypes
                  then Disabled (noDebuggerReason (newSet noDebugger))
                  else Enabled))"

section \<open>The view and the messages it can dispatch\<close>

text \<open>
  \<open>render\<close> replaces the content of the target root by \<open>view\<close> of the model, and every
  event handler in that tree dispatches \<open>UiMsg\<close> with the current date and the handler's
  message. What matters of the tree here is which messages its handlers dispatch, so
  \<open>viewCompilationModeChooser\<close>, \<open>viewStatus\<close> and \<open>view\<close> return those messages in
  place of the elements. The chooser attaches \<open>onchange\<close> to its three radio inputs only
  when it is given a send key; the expanded part, which holds the content of
  \<open>viewStatus\<close>, is in the tree only when \<open>uiExpanded\<close> is set; the chevron is always there.
\<close>

record Info =
  version :: string
  webSocketUrl :: string
  targetName :: string
  compilationMode :: CompilationModeWithProxy
  initializedElmAppsStatus :: InitializedElmAppsStatus





section \<open>The proxy around the stub \<open>window.Elm\<close>\<close>

text \<open>
  A property key is a string or a symbol; \<open>toString\<close> of a symbol is \<open>Symbol(description)\<close>.
  An object has own properties, in order, and possibly a prototype; a property holds a
  value or \<open>undefined\<close>. Accessor properties are left out: the objects in question hold
  plain data. A property descriptor is represented by the value it describes.
\<close>

datatype PropertyKey = StringKey string | SymbolKey string

fun propertyToString :: "PropertyKey \<Rightarrow> string" where
  "propertyToString (StringKey name) = name"
| "propertyToString (SymbolKey description) = ''Symbol('' @ description @ '')''"

definition startsWith :: "string \<Rightarrow> string \<Rightarrow> bool" where
  "startsWith str searchString = (take (length searchString) str = searchString)"

datatype 'v JSValue = Undefined | Value 'v

datatype 'v JSObject =
  JSObject (ownProperties: "(PropertyKey \<times> 'v JSValue) list") (prototypeOf: "'v JSObject option")

datatype 'v PropertyDescriptor = DataDescriptor "'v JSValue"

fun Reflect_get :: "'v JSObject \<Rightarrow> PropertyKey \<Rightarrow> 'v JSValue" where
  "Reflect_get (JSObject own prototype) property =
     (case map_of own property of
        Some v \<Rightarrow> v
      | None \<Rightarrow> (case prototype of
                   None \<Rightarrow> Undefined
                 | Some parent \<Rightarrow> Reflect_get parent property))"

fun Reflect_has :: "'v JSObject \<Rightarrow> PropertyKey \<Rightarrow> bool" where
  "Reflect_has (JSObject own prototype) property =
     (case map_of own property of
        Some v \<Rightarrow> True
      | None \<Rightarrow> (case prototype of
                   None \<Rightarrow> False
                 | Some parent \<Rightarrow> Reflect_has parent property))"

fun Reflect_getOwnPropertyDescriptor ::
  "'v JSObject \<Rightarrow> PropertyKey \<Rightarrow> 'v PropertyDescriptor option" where
  "Reflect_getOwnPropertyDescriptor (JSObject own prototype) property =
     map_option DataDescriptor (map_of own property)"

text \<open>The one error object that every trap throws.\<close>

definition error :: Thrown where
  "error = Error
     (''Certain parts of `window.Elm` aren't available yet! That's fine though!''
      @ [CHR 0x0A, CHR 0x0A]
      @ ''`elm-watch` has generated a stub file in place of Elm's compiled JS. This is''
      @ [CHR 0x0A]
      @ ''because until just now, there was no need to spend time on generating JS!''
      @ [CHR 0x0A, CHR 0x0A]
      @ ''This stub file is now connecting to `elm-watch` via WebSocket, letting it know''
      @ [CHR 0x0A]
      @ ''that it's time to start generating real JS. Once that's done the page should be''
      @ [CHR 0x0A]
      @ ''automatically reloaded. But if you get compilation errors you'll need to fix''
      @ [CHR 0x0A]
      @ ''them first.'')"

text \<open>
  The target of the proxy is \<open>window.Elm\<close> when that is an object, and a new empty object
  otherwise; an empty object literal has \<open>Object.prototype\<close> as its prototype.
\<close>

definition elmProxyTarget :: "'v JSObject option \<Rightarrow> 'v JSObject \<Rightarrow> 'v JSObject" where
  "elmProxyTarget existingObject objectPrototype =
     (case existingObject of
        Some existing \<Rightarrow> existing
      | None \<Rightarrow> JSObject [] (Some objectPrototype))"

text \<open>The four traps of the handler; \<open>Inl\<close> is a throw.\<close>

definition elmProxy_get :: "'v JSObject \<Rightarrow> PropertyKey \<Rightarrow> Thrown + 'v JSValue" where
  "elmProxy_get target property =
     (let v = Reflect_get target property
      in if v \<noteq> Undefined \<or> startsWith (propertyToString property) ''_''
         then Inr v
         else Inl error)"

definition elmProxy_getOwnPropertyDescriptor ::
  "'v JSObject \<Rightarrow> PropertyKey \<Rightarrow> Thrown + 'v PropertyDescriptor" where
  "elmProxy_getOwnPropertyDescriptor target property =
     (case Reflect_getOwnPropertyDescriptor target property of
        Some descriptor \<Rightarrow> Inr descriptor
      | None \<Rightarrow> Inl error)"

definition elmProxy_has :: "'v JSObject \<Rightarrow> PropertyKey \<Rightarrow> Thrown + bool" where
  "elmProxy_has target property =
     (if Reflect_has target property then Inr True else Inl error)"

definition elmProxy_ownKeys :: "'v JSObject \<Rightarrow> Thrown + PropertyKey list" where
  "elmProxy_ownKeys target = Inl error"

section \<open>Backoff policy\<close>

lemma retryWaitMs_mono: "1 \<le> m \<Longrightarrow> m \<le> n \<Longrightarrow> retryWaitMs m \<le> retryWaitMs n"
proof -
  assume a: "1 \<le> m" "m \<le> n"
  then have "m ^ 2 \<le> n ^ 2" by (intro power_mono) auto
  then show ?thesis by (simp add: retryWaitMs_def)
qed

lemma retryWaitMs_lower: "1 \<le> n \<Longrightarrow> 1010 \<le> retryWaitMs n"
proof -
  assume a: "1 \<le> n"
  then have "(1::int) ^ 2 \<le> n ^ 2" by (intro power_mono) auto
  then show ?thesis by (simp add: retryWaitMs_def)
qed

text \<open>
  Claim C7. For every attempt number \<open>n \<ge> 1\<close> the wait is \<open>min (1000 + 10 n\<^sup>2) 60000\<close>
  milliseconds; it lies between 1010 and 60000, it is monotone nondecreasing on the attempt
  numbers from 1 on, and the wait of the first attempt is 1010.
\<close>

theorem retryWaitMs_backoff:
  "1 \<le> n \<Longrightarrow>
     retryWaitMs n = min (1000 + 10 * n\<^sup>2) 60000
   \<and> 1010 \<le> retryWaitMs n \<and> retryWaitMs n \<le> 60000
   \<and> (\<forall>m. 1 \<le> m \<and> m \<le> n \<longrightarrow> retryWaitMs m \<le> retryWaitMs n)
   \<and> retryWaitMs 1 = 1010"
  using retryWaitMs_mono retryWaitMs_lower by (simp add: retryWaitMs_def)

theorem retryWaitMs_backoff_witness:
  "(1::int) \<le> 2 \<and> retryWaitMs 2 = 1040 \<and> retryWaitMs 1 \<le> retryWaitMs 2 \<and> retryWaitMs 1 = 1010"
  using retryWaitMs_backoff [of 2] by (simp add: retryWaitMs_def)

section \<open>The hot-reload decision\<close>

text \<open>
  In the concrete examples the frame data already is a thrown value or a message, of type
  \<open>Thrown + WebSocketToClientMessage\<close>, and the decoder is \<open>id\<close>.
\<close>

text \<open>
  Claim C1. When a frame decodes to \<open>SuccessfullyCompiled code mode ts\<close>: if the model
  cannot hot reload, or \<open>mode\<close> is not the compilation mode this client was compiled with,
  the model is returned as it is with the single command \<open>ReloadPage\<close>, and the program
  loop gets no \<open>Eval\<close> command; otherwise the status becomes \<open>Idle\<close> with the send key,
  the compiled timestamp becomes \<open>ts\<close>, and the commands contain \<open>Eval code\<close>.
\<close>

theorem successfullyCompiled_reload_or_eval:
  "decode data = Inr (SuccessfullyCompiled code mode ts) \<Longrightarrow>
   (if \<not> canHotReload model \<or> Mode mode \<noteq> COMPILATION_MODE
    then update COMPILATION_MODE decode (WebSocketMessageReceived date data) model
           = (model, [ReloadPage])
         \<and> (\<forall>c. Eval c \<notin> set (snd (runUpdate COMPILATION_MODE decode
                                       (WebSocketMessageReceived date data) model)))
         \<and> ReloadPage \<in> set (snd (runUpdate COMPILATION_MODE decode
                                       (WebSocketMessageReceived date data) model))
    else update COMPILATION_MODE decode (WebSocketMessageReceived date data) model
           = (model\<lparr>status := Idle date SEND_KEY_DO_NOT_USE_ALL_THE_TIME,
                     elmCompiledTimestamp := ts\<rparr>, [Eval code])
         \<and> Eval code \<in> set (snd (runUpdate COMPILATION_MODE decode
                                       (WebSocketMessageReceived date data) model)))"
  by (simp add: parseWebSocketMessageData_def runUpdate_def)

theorem successfullyCompiled_reload_or_eval_witness:
  "update (Mode standard) id
      (WebSocketMessageReceived 7 (Inr (SuccessfullyCompiled ''1+1'' standard 42)))
      \<lparr>status = Busy 3 None, elmCompiledTimestamp = 0, canHotReload = False, uiExpanded = False\<rparr>
    = (\<lparr>status = Busy 3 None, elmCompiledTimestamp = 0, canHotReload = False, uiExpanded = False\<rparr>,
       [ReloadPage])
   \<and> update (Mode standard) id
      (WebSocketMessageReceived 7 (Inr (SuccessfullyCompiled ''1+1'' standard 42)))
      \<lparr>status = Idle 3 SEND_KEY_DO_NOT_USE_ALL_THE_TIME, elmCompiledTimestamp = 0,
       canHotReload = True, uiExpanded = False\<rparr>
    = (\<lparr>status = Idle 7 SEND_KEY_DO_NOT_USE_ALL_THE_TIME, elmCompiledTimestamp = 42,
        canHotReload = True, uiExpanded = False\<rparr>,
       [Eval ''1+1''])"
  using successfullyCompiled_reload_or_eval
          [where decode = id and data = "Inr (SuccessfullyCompiled ''1+1'' standard 42)"
             and code = "''1+1''" and mode = standard and ts = 42
             and COMPILATION_MODE = "Mode standard" and date = 7
             and model = "\<lparr>status = Busy 3 None, elmCompiledTimestamp = 0,
                            canHotReload = False, uiExpanded = False\<rparr>"]
        successfullyCompiled_reload_or_eval
          [where decode = id and data = "Inr (SuccessfullyCompiled ''1+1'' standard 42)"
             and code = "''1+1''" and mode = standard and ts = 42
             and COMPILATION_MODE = "Mode standard" and date = 7
             and model = "\<lparr>status = Idle 3 SEND_KEY_DO_NOT_USE_ALL_THE_TIME,
                            elmCompiledTimestamp = 0, canHotReload = True,
                            uiExpanded = False\<rparr>"]
  by simp

lemma reconnect_canHotReload:
  "canHotReload (fst (reconnect model date force)) = canHotReload model"
  by (simp split: Status.splits)

lemma onUiMsg_canHotReload: "canHotReload (fst (onUiMsg date msg model)) = canHotReload model"
  by (cases msg) (simp_all split: Status.splits)

lemma statusChanged_canHotReload:
  "canHotReload (statusChanged date st model) = (st = AlreadyUpToDate \<or> canHotReload model)"
  by (cases st) simp_all

lemma onWebSocketToClientMessage_canHotReload:
  "canHotReload (fst (onWebSocketToClientMessage COMPILATION_MODE date message model))
     = (message = StatusChanged AlreadyUpToDate \<or> canHotReload model)"
  by (cases message) (auto simp: statusChanged_canHotReload)

lemma update_canHotReload:
  "canHotReload (fst (update COMPILATION_MODE decode msg model))
     = (canHotReload model
        \<or> (\<exists>date data. msg = WebSocketMessageReceived date data
                        \<and> decode data = Inr (StatusChanged AlreadyUpToDate)))"
proof (cases msg)
  case (WebSocketMessageReceived date data)
  then show ?thesis
    by (cases "decode data")
       (auto simp: parseWebSocketMessageData_def onWebSocketToClientMessage_canHotReload)
next
  case (UiMsg date uiMsg)
  then show ?thesis using onUiMsg_canHotReload by simp
qed (simp_all add: reconnect_canHotReload Let_def del: reconnect.simps)

text \<open>
  Claim C2. The initial model cannot hot reload. If a transition takes a model that
  cannot hot reload to one that can, the message was an inbound frame decoding to
  \<open>StatusChanged AlreadyUpToDate\<close>; and that message does make the flag true.
\<close>

theorem canHotReload_only_after_AlreadyUpToDate:
  "\<not> canHotReload (fst (init INITIAL_ELM_COMPILED_TIMESTAMP startDate))
   \<and> (\<not> canHotReload model \<and> canHotReload (fst (update COMPILATION_MODE decode msg model))
        \<longrightarrow> (\<exists>date data. msg = WebSocketMessageReceived date data
                           \<and> decode data = Inr (StatusChanged AlreadyUpToDate)))
   \<and> (decode data = Inr (StatusChanged AlreadyUpToDate)
        \<longrightarrow> canHotReload (fst (update COMPILATION_MODE decode
                                    (WebSocketMessageReceived date data) model)))"
proof -
  have "\<not> canHotReload (fst (init INITIAL_ELM_COMPILED_TIMESTAMP startDate))"
    by (simp add: init_def Let_def)
  moreover have "\<not> canHotReload model
        \<and> canHotReload (fst (update COMPILATION_MODE decode msg model))
        \<longrightarrow> (\<exists>date data. msg = WebSocketMessageReceived date data
                           \<and> decode data = Inr (StatusChanged AlreadyUpToDate))"
    by (simp only: update_canHotReload) blast
  moreover have "decode data = Inr (StatusChanged AlreadyUpToDate)
        \<longrightarrow> canHotReload (fst (update COMPILATION_MODE decode
                                    (WebSocketMessageReceived date data) model))"
    by (simp only: update_canHotReload) blast
  ultimately show ?thesis by blast
qed

theorem canHotReload_only_after_AlreadyUpToDate_witness:
  "\<not> canHotReload (fst (init 0 0))
   \<and> canHotReload (fst (update (Mode standard) id
         (WebSocketMessageReceived 5 (Inr (StatusChanged AlreadyUpToDate))) (fst (init 0 0))))"
  using canHotReload_only_after_AlreadyUpToDate
          [where INITIAL_ELM_COMPILED_TIMESTAMP = 0 and startDate = 0
             and model = "fst (init 0 0)" and COMPILATION_MODE = "Mode standard"
             and decode = id
             and msg = "WebSocketMessageReceived 5 (Inr (StatusChanged AlreadyUpToDate))"
             and data = "Inr (StatusChanged AlreadyUpToDate)" and date = 5]
  by (simp add: init_def)

section \<open>Outbound sends and the send key\<close>

lemma onWebSocketToClientMessage_cmds:
  "c \<in> set (snd (onWebSocketToClientMessage COMPILATION_MODE date message model)) \<Longrightarrow>
     c = ReloadPage \<or> (\<exists>code. c = Eval code)"
  by (cases message) (auto split: if_splits)








section \<open>Attempt numbers\<close>

text \<open>
  From a fresh page: a close gives attempt 2; after a forced wake, a successful connection
  and another close, the attempt number is 1 again, without any page load in between.
\<close>

theorem attempt_resets_without_page_load_counterexample:
  "status (dispatchAll (Mode standard) id [WebSocketClosed 10] (fst (init 0 0)))
     = SleepingBeforeReconnect 10 2
   \<and> status (dispatchAll (Mode standard) id
        [WebSocketClosed 10, UiMsg 20 PressedReconnectNow, WebSocketConnected 30,
         WebSocketClosed 40]
        (fst (init 0 0)))
     = SleepingBeforeReconnect 40 1"
  by (simp add: init_def runUpdate_def Let_def)

lemma reconnect_attemptNumberOf:
  "attemptNumberOf (status (fst (reconnect model date force))) = attemptNumberOf (status model)"
  by (cases "status model") simp_all

lemma runUpdate_attemptNumberOf:
  assumes "attemptNumberOf (status model) = Some a" and "keepsAttemptNumber msg"
  shows "attemptNumberOf (status (fst (runUpdate COMPILATION_MODE decode msg model)))
           = Some (if isWebSocketClosed msg then a + 1 else a)"
proof (cases msg)
  case (UiMsg date uiMsg)
  with assms show ?thesis
    by (cases uiMsg)
       (simp_all add: runUpdate_def split_beta reconnect_attemptNumberOf del: reconnect.simps)
next
  case (WebSocketClosed date)
  with assms show ?thesis
    by (cases "status model") (simp_all add: runUpdate_def Let_def)
qed (use assms in \<open>simp_all add: runUpdate_def split_beta reconnect_attemptNumberOf
                                 del: reconnect.simps\<close>)

lemma dispatchAll_attemptNumberOf:
  "attemptNumberOf (status model) = Some a \<Longrightarrow> \<forall>msg \<in> set msgs. keepsAttemptNumber msg \<Longrightarrow>
     attemptNumberOf (status (dispatchAll COMPILATION_MODE decode msgs model))
       = Some (a + int (length (filter isWebSocketClosed msgs)))"
proof (induction msgs arbitrary: model a)
  case Nil
  then show ?case by simp
next
  case (Cons msg msgs)
  let ?next = "fst (runUpdate COMPILATION_MODE decode msg model)"
  have step: "attemptNumberOf (status ?next) = Some (if isWebSocketClosed msg then a + 1 else a)"
    using Cons.prems by (simp add: runUpdate_attemptNumberOf)
  have "attemptNumberOf (status (dispatchAll COMPILATION_MODE decode msgs ?next))
          = Some ((if isWebSocketClosed msg then a + 1 else a)
                  + int (length (filter isWebSocketClosed msgs)))"
    using Cons.IH [OF step] Cons.prems(2) by simp
  then show ?case by simp
qed

text \<open>
  Claim C4, as amended. On \<open>WebSocketClosed\<close> the status becomes
  \<open>SleepingBeforeReconnect\<close> and a sleep is scheduled, both with the attempt number
  \<open>a + 1\<close> when the current status has an attempt number \<open>a\<close> (\<open>Connecting\<close>,
  \<open>SleepingBeforeReconnect\<close>), and with 1 when it has none. Over a sequence of messages
  none of which replaces the status by one without an attempt number, the attempt number
  grows by exactly the number of closes in the sequence.
\<close>

theorem webSocketClosed_attemptNumber:
  "(attemptNumberOf (status model) = Some a \<longrightarrow>
      update COMPILATION_MODE decode (WebSocketClosed date) model
        = (model\<lparr>status := SleepingBeforeReconnect date (a + 1)\<rparr>,
           [SleepBeforeReconnect (a + 1)]))
   \<and> (attemptNumberOf (status model) = None \<longrightarrow>
      update COMPILATION_MODE decode (WebSocketClosed date) model
        = (model\<lparr>status := SleepingBeforeReconnect date 1\<rparr>, [SleepBeforeReconnect 1]))
   \<and> (attemptNumberOf (status model) = Some a \<and> (\<forall>msg \<in> set msgs. keepsAttemptNumber msg) \<longrightarrow>
      attemptNumberOf (status (dispatchAll COMPILATION_MODE decode msgs model))
        = Some (a + int (length (filter isWebSocketClosed msgs))))"
proof -
  have "attemptNumberOf (status model) = Some a \<longrightarrow>
      update COMPILATION_MODE decode (WebSocketClosed date) model
        = (model\<lparr>status := SleepingBeforeReconnect date (a + 1)\<rparr>,
           [SleepBeforeReconnect (a + 1)])"
    by (cases "status model") (simp_all add: Let_def)
  moreover have "attemptNumberOf (status model) = None \<longrightarrow>
      update COMPILATION_MODE decode (WebSocketClosed date) model
        = (model\<lparr>status := SleepingBeforeReconnect date 1\<rparr>, [SleepBeforeReconnect 1])"
    by (cases "status model") (simp_all add: Let_def)
  moreover have "attemptNumberOf (status model) = Some a
        \<and> (\<forall>msg \<in> set msgs. keepsAttemptNumber msg) \<longrightarrow>
      attemptNumberOf (status (dispatchAll COMPILATION_MODE decode msgs model))
        = Some (a + int (length (filter isWebSocketClosed msgs)))"
    using dispatchAll_attemptNumberOf by blast
  ultimately show ?thesis by blast
qed

theorem webSocketClosed_attemptNumber_witness:
  "attemptNumberOf (status (fst (init 0 0))) = Some 1
   \<and> update (Mode standard) id (WebSocketClosed 10) (fst (init 0 0))
       = ((fst (init 0 0))\<lparr>status := SleepingBeforeReconnect 10 2\<rparr>, [SleepBeforeReconnect 2])
   \<and> attemptNumberOf (status (dispatchAll (Mode standard) id
        [WebSocketClosed 10, UiMsg 20 PressedReconnectNow, WebSocketClosed 30] (fst (init 0 0))))
       = Some 3"
  using webSocketClosed_attemptNumber
          [where model = "fst (init 0 0)" and a = 1 and COMPILATION_MODE = "Mode standard"
             and decode = "id :: Thrown + WebSocketToClientMessage \<Rightarrow> _" and date = 10
             and msgs = "[WebSocketClosed 10, UiMsg 20 PressedReconnectNow, WebSocketClosed 30]"]
  by (simp add: init_def runUpdate_def Let_def)

section \<open>Waking up\<close>

text \<open>
  Claim C5. In status \<open>SleepingBeforeReconnect sleepDate n\<close>, the timer message
  \<open>SleepBeforeReconnectDone date\<close> moves to \<open>Connecting date n\<close> with a \<open>Reconnect\<close> command
  carrying the compiled timestamp of the model exactly when
  \<open>date - sleepDate \<ge> retryWaitMs n\<close>, and otherwise changes nothing; the button
  \<open>PressedReconnectNow\<close> and \<open>PageVisibilityChangedToVisible\<close> make the same transition
  whatever time has passed.
\<close>

theorem reconnect_after_wait_or_forced:
  "status model = SleepingBeforeReconnect sleepDate n \<Longrightarrow>
     (update COMPILATION_MODE decode (SleepBeforeReconnectDone date) model
        = (model\<lparr>status := Connecting date n\<rparr>, [Reconnect (elmCompiledTimestamp model)])
      \<longleftrightarrow> date - sleepDate \<ge> retryWaitMs n)
   \<and> (\<not> date - sleepDate \<ge> retryWaitMs n \<longrightarrow>
        update COMPILATION_MODE decode (SleepBeforeReconnectDone date) model = (model, []))
   \<and> update COMPILATION_MODE decode (UiMsg date PressedReconnectNow) model
        = (model\<lparr>status := Connecting date n\<rparr>, [Reconnect (elmCompiledTimestamp model)])
   \<and> update COMPILATION_MODE decode (PageVisibilityChangedToVisible date) model
        = (model\<lparr>status := Connecting date n\<rparr>, [Reconnect (elmCompiledTimestamp model)])"
  by simp

theorem reconnect_after_wait_or_forced_witness:
  "update (Mode standard) id (SleepBeforeReconnectDone 2040)
      \<lparr>status = SleepingBeforeReconnect 1000 2, elmCompiledTimestamp = 5, canHotReload = False,
       uiExpanded = False\<rparr>
    = (\<lparr>status = Connecting 2040 2, elmCompiledTimestamp = 5, canHotReload = False,
        uiExpanded = False\<rparr>, [Reconnect 5])
   \<and> update (Mode standard) id (SleepBeforeReconnectDone 2039)
      \<lparr>status = SleepingBeforeReconnect 1000 2, elmCompiledTimestamp = 5, canHotReload = False,
       uiExpanded = False\<rparr>
    = (\<lparr>status = SleepingBeforeReconnect 1000 2, elmCompiledTimestamp = 5,
        canHotReload = False, uiExpanded = False\<rparr>, [])
   \<and> update (Mode standard) id (UiMsg 2039 PressedReconnectNow)
      \<lparr>status = SleepingBeforeReconnect 1000 2, elmCompiledTimestamp = 5, canHotReload = False,
       uiExpanded = False\<rparr>
    = (\<lparr>status = Connecting 2039 2, elmCompiledTimestamp = 5, canHotReload = False,
        uiExpanded = False\<rparr>, [Reconnect 5])"
  using reconnect_after_wait_or_forced
          [where model = "\<lparr>status = SleepingBeforeReconnect 1000 2, elmCompiledTimestamp = 5,
                            canHotReload = False, uiExpanded = False\<rparr>"
             and sleepDate = 1000 and n = 2 and date = 2040
             and COMPILATION_MODE = "Mode standard"
             and decode = "id :: Thrown + WebSocketToClientMessage \<Rightarrow> _"]
        reconnect_after_wait_or_forced
          [where model = "\<lparr>status = SleepingBeforeReconnect 1000 2, elmCompiledTimestamp = 5,
                            canHotReload = False, uiExpanded = False\<rparr>"
             and sleepDate = 1000 and n = 2 and date = 2039
             and COMPILATION_MODE = "Mode standard"
             and decode = "id :: Thrown + WebSocketToClientMessage \<Rightarrow> _"]
  by (simp add: retryWaitMs_def)

lemma reconnect_not_sleeping:
  "\<forall>d n. status model \<noteq> SleepingBeforeReconnect d n \<Longrightarrow> reconnect model date force = (model, [])"
  by (cases "status model") simp_all

lemma reconnect_Reconnect_sleeping:
  "Reconnect ts \<in> set (snd (reconnect model date force)) \<Longrightarrow>
     \<exists>d n. status model = SleepingBeforeReconnect d n"
  by (cases "status model") simp_all

lemma update_Reconnect_sleeping:
  "Reconnect ts \<in> set (snd (update COMPILATION_MODE decode msg model)) \<Longrightarrow>
     \<exists>d n. status model = SleepingBeforeReconnect d n"
proof (cases msg)
  case FocusedTab
  assume "Reconnect ts \<in> set (snd (update COMPILATION_MODE decode msg model))"
  with FocusedTab show ?thesis by (cases "status model") simp_all
next
  case (UiMsg date uiMsg)
  assume "Reconnect ts \<in> set (snd (update COMPILATION_MODE decode msg model))"
  with UiMsg show ?thesis
    by (cases uiMsg) (auto dest: reconnect_Reconnect_sleeping simp del: reconnect.simps)
next
  case (WebSocketMessageReceived date data)
  assume "Reconnect ts \<in> set (snd (update COMPILATION_MODE decode msg model))"
  with WebSocketMessageReceived show ?thesis
    by (auto simp: parseWebSocketMessageData_def dest: onWebSocketToClientMessage_cmds
             split: sum.splits)
qed (auto dest: reconnect_Reconnect_sleeping simp: Let_def simp del: reconnect.simps)

text \<open>
  Claim C10. When the status of the model is not \<open>SleepingBeforeReconnect\<close>, the forced
  wakes \<open>PressedReconnectNow\<close> and \<open>PageVisibilityChangedToVisible\<close> return the model as
  it is with no command, and no message at all makes \<open>update\<close> emit \<open>Reconnect\<close>.
\<close>

theorem forced_wake_only_from_sleeping:
  "\<forall>d n. status model \<noteq> SleepingBeforeReconnect d n \<Longrightarrow>
     update COMPILATION_MODE decode (UiMsg date PressedReconnectNow) model = (model, [])
   \<and> update COMPILATION_MODE decode (PageVisibilityChangedToVisible date) model = (model, [])
   \<and> Reconnect ts \<notin> set (snd (update COMPILATION_MODE decode msg model))"
  using reconnect_not_sleeping [of model date True]
        update_Reconnect_sleeping [of ts COMPILATION_MODE decode msg model]
  by auto

theorem forced_wake_only_from_sleeping_witness:
  "(\<forall>d n. status \<lparr>status = Idle 3 SEND_KEY_DO_NOT_USE_ALL_THE_TIME, elmCompiledTimestamp = 0,
                   canHotReload = True, uiExpanded = False\<rparr> \<noteq> SleepingBeforeReconnect d n)
   \<and> update (Mode standard) id (UiMsg 9 PressedReconnectNow)
        \<lparr>status = Idle 3 SEND_KEY_DO_NOT_USE_ALL_THE_TIME, elmCompiledTimestamp = 0,
         canHotReload = True, uiExpanded = False\<rparr>
      = (\<lparr>status = Idle 3 SEND_KEY_DO_NOT_USE_ALL_THE_TIME, elmCompiledTimestamp = 0,
          canHotReload = True, uiExpanded = False\<rparr>, [])
   \<and> update (Mode standard) id (PageVisibilityChangedToVisible 9)
        \<lparr>status = Idle 3 SEND_KEY_DO_NOT_USE_ALL_THE_TIME, elmCompiledTimestamp = 0,
         canHotReload = True, uiExpanded = False\<rparr>
      = (\<lparr>status = Idle 3 SEND_KEY_DO_NOT_USE_ALL_THE_TIME, elmCompiledTimestamp = 0,
          canHotReload = True, uiExpanded = False\<rparr>, [])"
  using forced_wake_only_from_sleeping
          [where model = "\<lparr>status = Idle 3 SEND_KEY_DO_NOT_USE_ALL_THE_TIME,
                            elmCompiledTimestamp = 0, canHotReload = True,
                            uiExpanded = False\<rparr>"
             and COMPILATION_MODE = "Mode standard"
             and decode = "id :: Thrown + WebSocketToClientMessage \<Rightarrow> _"
             and date = 9 and msg = FocusedTab and ts = 0]
  by simp

section \<open>Frames that fail to decode\<close>

text \<open>
  Claim C6. When the data of an inbound frame fails to decode, the result of \<open>update\<close> is
  the model with status \<open>UnexpectedError\<close> and the user interface expanded, and no command.
  The message of the status is the fixed line
  \<open>Failed to decode web socket message sent from the server:\<close>, a newline, and then the
  text of what the decoder threw, unchanged: the formatted text of a decoder error, the
  message of any other error, the representation of a thrown value that is not an error.
  Whatever is thrown is caught and ends in this status.
\<close>

theorem decode_failure_is_UnexpectedError:
  "(decode data = Inl (DecoderError formatted) \<longrightarrow>
      update COMPILATION_MODE decode (WebSocketMessageReceived date data) model
        = (model\<lparr>status := UnexpectedError date
                      (''Failed to decode web socket message sent from the server:''
                       @ [CHR 0x0A] @ formatted),
                  uiExpanded := True\<rparr>, []))
   \<and> (decode data = Inl (Error errorMessage) \<longrightarrow>
      update COMPILATION_MODE decode (WebSocketMessageReceived date data) model
        = (model\<lparr>status := UnexpectedError date
                      (''Failed to decode web socket message sent from the server:''
                       @ [CHR 0x0A] @ errorMessage),
                  uiExpanded := True\<rparr>, []))
   \<and> (decode data = Inl (NotAnError repr) \<longrightarrow>
      update COMPILATION_MODE decode (WebSocketMessageReceived date data) model
        = (model\<lparr>status := UnexpectedError date
                      (''Failed to decode web socket message sent from the server:''
                       @ [CHR 0x0A] @ repr),
                  uiExpanded := True\<rparr>, []))
   \<and> (decode data = Inl unknownError \<longrightarrow>
      (\<exists>text. update COMPILATION_MODE decode (WebSocketMessageReceived date data) model
        = (model\<lparr>status := UnexpectedError date
                      (''Failed to decode web socket message sent from the server:''
                       @ [CHR 0x0A] @ text),
                  uiExpanded := True\<rparr>, [])
         \<and> unknownError \<in> {DecoderError text, Error text, NotAnError text}))"
proof (intro conjI impI)
  assume "decode data = Inl unknownError"
  then have "update COMPILATION_MODE decode (WebSocketMessageReceived date data) model
        = (model\<lparr>status := UnexpectedError date
                      (''Failed to decode web socket message sent from the server:''
                       @ [CHR 0x0A] @ possiblyDecodeErrorToString unknownError),
                  uiExpanded := True\<rparr>, [])"
    by (simp add: parseWebSocketMessageData_def)
  moreover have "unknownError \<in> {DecoderError (possiblyDecodeErrorToString unknownError),
                    Error (possiblyDecodeErrorToString unknownError),
                    NotAnError (possiblyDecodeErrorToString unknownError)}"
    by (cases unknownError) simp_all
  ultimately show "\<exists>text. update COMPILATION_MODE decode (WebSocketMessageReceived date data) model
        = (model\<lparr>status := UnexpectedError date
                      (''Failed to decode web socket message sent from the server:''
                       @ [CHR 0x0A] @ text),
                  uiExpanded := True\<rparr>, [])
         \<and> unknownError \<in> {DecoderError text, Error text, NotAnError text}"
    by (intro exI [where x = "possiblyDecodeErrorToString unknownError"] conjI)
qed (simp_all add: parseWebSocketMessageData_def)

theorem decode_failure_is_UnexpectedError_witness:
  "update (Mode standard) id (WebSocketMessageReceived 8 (Inl (DecoderError ''At root: boom'')))
      \<lparr>status = Busy 3 None, elmCompiledTimestamp = 0, canHotReload = False, uiExpanded = False\<rparr>
    = (\<lparr>status = UnexpectedError 8
          (''Failed to decode web socket message sent from the server:'' @ [CHR 0x0A]
           @ ''At root: boom''),
        elmCompiledTimestamp = 0, canHotReload = False, uiExpanded = True\<rparr>, [])
   \<and> update (Mode standard) id (WebSocketMessageReceived 8 (Inl (Error ''Unexpected token'')))
      \<lparr>status = Busy 3 None, elmCompiledTimestamp = 0, canHotReload = False, uiExpanded = False\<rparr>
    = (\<lparr>status = UnexpectedError 8
          (''Failed to decode web socket message sent from the server:'' @ [CHR 0x0A]
           @ ''Unexpected token''),
        elmCompiledTimestamp = 0, canHotReload = False, uiExpanded = True\<rparr>, [])
   \<and> update (Mode standard) id (WebSocketMessageReceived 8 (Inl (NotAnError ''null'')))
      \<lparr>status = Busy 3 None, elmCompiledTimestamp = 0, canHotReload = False, uiExpanded = False\<rparr>
    = (\<lparr>status = UnexpectedError 8
          (''Failed to decode web socket message sent from the server:'' @ [CHR 0x0A]
           @ ''null''),
        elmCompiledTimestamp = 0, canHotReload = False, uiExpanded = True\<rparr>, [])"
  using decode_failure_is_UnexpectedError
          [where decode = id and data = "Inl (DecoderError ''At root: boom'')"
             and formatted = "''At root: boom''"
             and COMPILATION_MODE = "Mode standard" and date = 8
             and model = "\<lparr>status = Busy 3 None, elmCompiledTimestamp = 0,
                            canHotReload = False, uiExpanded = False\<rparr>"]
        decode_failure_is_UnexpectedError
          [where decode = id and data = "Inl (Error ''Unexpected token'')"
             and errorMessage = "''Unexpected token''"
             and COMPILATION_MODE = "Mode standard" and date = 8
             and model = "\<lparr>status = Busy 3 None, elmCompiledTimestamp = 0,
                            canHotReload = False, uiExpanded = False\<rparr>"]
        decode_failure_is_UnexpectedError
          [where decode = id and data = "Inl (NotAnError ''null'')"
             and repr = "''null''"
             and COMPILATION_MODE = "Mode standard" and date = 8
             and model = "\<lparr>status = Busy 3 None, elmCompiledTimestamp = 0,
                            canHotReload = False, uiExpanded = False\<rparr>"]
  by simp

section \<open>Program introspection: the debugger status\<close>

lemma foldl_setAdd_set: "set (foldl setAdd acc xs) = set acc \<union> set xs"
  by (induction xs arbitrary: acc) (auto simp: setAdd_def)

lemma foldl_setAdd_distinct: "distinct acc \<Longrightarrow> distinct (foldl setAdd acc xs)"
  by (induction xs arbitrary: acc) (auto simp: setAdd_def)

lemma foldl_setAdd_prefix: "\<exists>ys. foldl setAdd acc xs = acc @ ys"
proof (induction xs arbitrary: acc)
  case Nil
  show ?case by simp
next
  case (Cons x xs)
  obtain ys where ys: "foldl setAdd (setAdd acc x) xs = setAdd acc x @ ys"
    using Cons.IH by blast
  show ?case
  proof (cases "x \<in> set acc")
    case True
    then have "setAdd acc x = acc" by (simp add: setAdd_def)
    with ys show ?thesis by simp
  next
    case False
    then have "setAdd acc x = acc @ [x]" by (simp add: setAdd_def)
    with ys show ?thesis by simp
  qed
qed

lemma newSet_set: "set (newSet xs) = set xs"
  by (simp add: newSet_def foldl_setAdd_set)

lemma newSet_distinct: "distinct (newSet xs)"
  by (simp add: newSet_def foldl_setAdd_distinct)

lemma newSet_Cons: "\<exists>ys. newSet (x # xs) = x # ys"
proof -
  obtain ys where "foldl setAdd [x] xs = [x] @ ys"
    using foldl_setAdd_prefix by blast
  then show ?thesis by (simp add: newSet_def setAdd_def)
qed

lemma distinct_set_singleton:
  assumes "distinct ys" and "set ys = {k}"
  shows "ys = [k]"
proof (cases ys)
  case Nil
  with assms(2) show ?thesis by simp
next
  case (Cons y zs)
  with assms have y: "y = k" and notin: "k \<notin> set zs" and sub: "set zs \<subseteq> {k}"
    by auto
  have "zs = []"
  proof (cases zs)
    case Nil
    then show ?thesis .
  next
    case (Cons z zs')
    then have "z \<in> set zs" by simp
    with sub notin show ?thesis by blast
  qed
  with Cons y show ?thesis by simp
qed

lemma newSet_single: "set xs = {k} \<Longrightarrow> newSet xs = [k]"
  using distinct_set_singleton [OF newSet_distinct, of xs k] by (simp add: newSet_set)

lemma newSet_pair:
  assumes "set xs = {k1, k2}" and "k1 \<noteq> k2" and "hd xs = k1"
  shows "newSet xs = [k1, k2]"
proof -
  obtain x xs' where xs: "xs = x # xs'" using assms(1) by (cases xs) auto
  obtain ys where ys: "newSet xs = x # ys" using xs newSet_Cons [of x xs'] by auto
  have x: "x = k1" using assms(3) xs by simp
  have d: "distinct (k1 # ys)" and s: "set (k1 # ys) = {k1, k2}"
    using ys x assms(1) newSet_distinct [of xs] newSet_set [of xs] by simp_all
  from d s assms(2) have "set ys = {k2}" by auto
  moreover from d have "distinct ys" by simp
  ultimately have "ys = [k2]" by (rule distinct_set_singleton [rotated])
  with ys x show ?thesis by simp
qed

lemma length_filter_all: "length (filter P xs) = length xs \<longleftrightarrow> (\<forall>x \<in> set xs. P x)"
proof
  assume eq: "length (filter P xs) = length xs"
  show "\<forall>x \<in> set xs. P x"
  proof
    fix x assume "x \<in> set xs"
    then show "P x" using eq length_filter_less [of x xs P] by fastforce
  qed
next
  assume "\<forall>x \<in> set xs. P x"
  then show "length (filter P xs) = length xs" by simp
qed

lemma noDebuggerSupport_iff: "noDebuggerSupport p \<longleftrightarrow> p = Platform_worker \<or> p = Html"
  by (cases p) simp_all

lemma noDebuggerReason_single:
  "noDebuggerReason [k]
     = ''The Elm debugger isn't supported by `'' @ programTypeName k @ ''` programs.''"
  by (simp add: noDebuggerReason_def humanList_def)

lemma noDebuggerReason_pair:
  "noDebuggerReason [k1, k2]
     = ''The Elm debugger isn't supported by `'' @ programTypeName k1 @ ''` and `''
       @ programTypeName k2 @ ''` programs.''"
  by (simp add: noDebuggerReason_def humanList_def)

lemma kinds_single_or_pair:
  assumes "xs \<noteq> []" and "\<forall>x \<in> set xs. x = a \<or> x = b"
  shows "(\<exists>k. set xs = {k}) \<or> (\<exists>k2. hd xs \<noteq> k2 \<and> set xs = {hd xs, k2})"
proof -
  define h where "h = hd xs"
  have h: "h \<in> set xs" using assms(1) by (simp add: h_def)
  have hab: "h = a \<or> h = b" using assms(2) h by (rule bspec)
  have "(\<exists>k. set xs = {k}) \<or> (\<exists>k2. h \<noteq> k2 \<and> set xs = {h, k2})"
  proof (cases "\<forall>x \<in> set xs. x = h")
    case True
    have "set xs = {h}"
    proof
      show "set xs \<subseteq> {h}" using True by blast
      show "{h} \<subseteq> set xs" using h by simp
    qed
    then have "\<exists>k. set xs = {k}" by (rule exI)
    then show ?thesis by (rule disjI1)
  next
    case False
    then obtain y where y: "y \<in> set xs" "y \<noteq> h" by blast
    have yab: "y = a \<or> y = b" using assms(2) y(1) by (rule bspec)
    have "set xs = {h, y}"
    proof
      show "set xs \<subseteq> {h, y}"
      proof
        fix z assume "z \<in> set xs"
        with assms(2) have "z = a \<or> z = b" by (rule bspec)
        with hab yab y(2) show "z \<in> {h, y}" by blast
      qed
      show "{h, y} \<subseteq> set xs" using y h by simp
    qed
    moreover have "h \<noteq> y" using y(2) by simp
    ultimately have "h \<noteq> y \<and> set xs = {h, y}" by simp
    then have "\<exists>k2. h \<noteq> k2 \<and> set xs = {h, k2}" by (rule exI)
    then show ?thesis by (rule disjI2)
  qed
  then show ?thesis by (simp only: h_def)
qed

lemma check_Disabled_reason:
  assumes "programTypes \<noteq> []" and "\<forall>p \<in> set programTypes. noDebuggerSupport p"
  shows "(\<exists>k. set programTypes = {k}
             \<and> noDebuggerReason (newSet (filter noDebuggerSupport programTypes))
               = ''The Elm debugger isn't supported by `'' @ programTypeName k
                 @ ''` programs.'')
       \<or> (\<exists>k1 k2. k1 \<noteq> k2 \<and> set programTypes = {k1, k2} \<and> hd programTypes = k1
             \<and> noDebuggerReason (newSet (filter noDebuggerSupport programTypes))
               = ''The Elm debugger isn't supported by `'' @ programTypeName k1
                 @ ''` and `'' @ programTypeName k2 @ ''` programs.'')"
proof -
  have f: "filter noDebuggerSupport programTypes = programTypes"
    using assms(2) by (simp add: filter_id_conv)
  have "\<forall>p \<in> set programTypes. p = Platform_worker \<or> p = Html"
    using assms(2) by (simp add: noDebuggerSupport_iff)
  from kinds_single_or_pair [OF assms(1) this]
  show ?thesis
  proof
    assume "\<exists>k. set programTypes = {k}"
    then obtain k where k: "set programTypes = {k}" ..
    then have "newSet programTypes = [k]" by (rule newSet_single)
    then have "noDebuggerReason (newSet (filter noDebuggerSupport programTypes))
               = ''The Elm debugger isn't supported by `'' @ programTypeName k
                 @ ''` programs.''"
      by (simp only: f noDebuggerReason_single)
    with k have "set programTypes = {k}
             \<and> noDebuggerReason (newSet (filter noDebuggerSupport programTypes))
               = ''The Elm debugger isn't supported by `'' @ programTypeName k
                 @ ''` programs.''"
      by (intro conjI)
    then show ?thesis by (intro disjI1 exI [where x = k])
  next
    assume "\<exists>k2. hd programTypes \<noteq> k2 \<and> set programTypes = {hd programTypes, k2}"
    then obtain k2 where k2: "hd programTypes \<noteq> k2"
        "set programTypes = {hd programTypes, k2}" by (elim exE conjE)
    have "newSet programTypes = [hd programTypes, k2]"
      using k2(2) k2(1) by (rule newSet_pair) (rule refl)
    then have "noDebuggerReason (newSet (filter noDebuggerSupport programTypes))
               = ''The Elm debugger isn't supported by `'' @ programTypeName (hd programTypes)
                 @ ''` and `'' @ programTypeName k2 @ ''` programs.''"
      by (simp only: f noDebuggerReason_pair)
    with k2 have "hd programTypes \<noteq> k2 \<and> set programTypes = {hd programTypes, k2}
             \<and> hd programTypes = hd programTypes
             \<and> noDebuggerReason (newSet (filter noDebuggerSupport programTypes))
               = ''The Elm debugger isn't supported by `'' @ programTypeName (hd programTypes)
                 @ ''` and `'' @ programTypeName k2 @ ''` programs.''"
      by (intro conjI refl)
    then show ?thesis
      by (intro disjI2 exI [where x = "hd programTypes"] exI [where x = k2])
  qed
qed

lemma check_Inl:
  "ProgramTypes window = Inl unknownError \<Longrightarrow>
   checkInitializedElmAppsStatus COMPILATION_MODE ProgramTypes window
     = (if COMPILATION_MODE = proxy then DebuggerModeStatus Enabled
        else DecodeError (possiblyDecodeErrorToString unknownError))"
  by (simp add: checkInitializedElmAppsStatus_def)

lemma check_Inr:
  "ProgramTypes window = Inr programTypes \<Longrightarrow>
   checkInitializedElmAppsStatus COMPILATION_MODE ProgramTypes window
     = (if programTypes = [] then NoProgramsAtAll
        else if \<forall>p \<in> set programTypes. noDebuggerSupport p
        then DebuggerModeStatus
               (Disabled (noDebuggerReason (newSet (filter noDebuggerSupport programTypes))))
        else DebuggerModeStatus Enabled)"
  by (simp add: checkInitializedElmAppsStatus_def Let_def length_filter_all)

lemma check_Disabled_iff:
  "(\<exists>reason. checkInitializedElmAppsStatus COMPILATION_MODE ProgramTypes window
                = DebuggerModeStatus (Disabled reason))
   \<longleftrightarrow> (\<exists>programTypes. ProgramTypes window = Inr programTypes \<and> programTypes \<noteq> []
         \<and> (\<forall>p \<in> set programTypes. p = Platform_worker \<or> p = Html))"
proof (cases "ProgramTypes window")
  case (Inl unknownError)
  then show ?thesis by (simp add: check_Inl)
next
  case (Inr programTypes)
  then show ?thesis by (simp add: check_Inr noDebuggerSupport_iff)
qed

lemma check_Disabled_names_kinds:
  assumes "checkInitializedElmAppsStatus COMPILATION_MODE ProgramTypes window
             = DebuggerModeStatus (Disabled reason)"
  shows "\<exists>programTypes. ProgramTypes window = Inr programTypes
           \<and> ((\<exists>k. set programTypes = {k}
                   \<and> reason = ''The Elm debugger isn't supported by `'' @ programTypeName k
                       @ ''` programs.'')
              \<or> (\<exists>k1 k2. k1 \<noteq> k2 \<and> set programTypes = {k1, k2} \<and> hd programTypes = k1
                   \<and> reason = ''The Elm debugger isn't supported by `'' @ programTypeName k1
                       @ ''` and `'' @ programTypeName k2 @ ''` programs.''))"
proof (cases "ProgramTypes window")
  case (Inl unknownError)
  with assms show ?thesis by (simp add: check_Inl split: if_splits)
next
  case (Inr programTypes)
  with assms have ne: "programTypes \<noteq> []"
      and all: "\<forall>p \<in> set programTypes. noDebuggerSupport p"
      and r: "noDebuggerReason (newSet (filter noDebuggerSupport programTypes)) = reason"
    by (simp_all add: check_Inr split: if_splits)
  from check_Disabled_reason [OF ne all]
  have "(\<exists>k. set programTypes = {k}
                   \<and> reason = ''The Elm debugger isn't supported by `'' @ programTypeName k
                       @ ''` programs.'')
              \<or> (\<exists>k1 k2. k1 \<noteq> k2 \<and> set programTypes = {k1, k2} \<and> hd programTypes = k1
                   \<and> reason = ''The Elm debugger isn't supported by `'' @ programTypeName k1
                       @ ''` and `'' @ programTypeName k2 @ ''` programs.'')"
    by (simp only: r)
  with Inr show ?thesis by (intro exI [where x = programTypes] conjI)
qed

text \<open>
  Claim C8. When decoding \<open>window.Elm\<close> yields no program type at all, the result is
  \<open>NoProgramsAtAll\<close>. When decoding throws, the result is \<open>DecodeError\<close> with the text of
  what was thrown, except in the \<open>proxy\<close> compilation mode, where it is
  \<open>DebuggerModeStatus Enabled\<close>. The result is \<open>DebuggerModeStatus (Disabled reason)\<close>
  exactly when decoding succeeds with at least one program type and every program type
  found is \<open>Platform.worker\<close> or \<open>Html\<close>; the reason then names each kind found once, in
  the order of first occurrence: one kind alone, or two kinds joined by \<open>and\<close>.
\<close>

theorem checkInitializedElmAppsStatus_cases:
  "(ProgramTypes window = Inr [] \<longrightarrow>
      checkInitializedElmAppsStatus COMPILATION_MODE ProgramTypes window = NoProgramsAtAll)
   \<and> (ProgramTypes window = Inl unknownError \<longrightarrow>
      checkInitializedElmAppsStatus COMPILATION_MODE ProgramTypes window
        = (if COMPILATION_MODE = proxy then DebuggerModeStatus Enabled
           else DecodeError (possiblyDecodeErrorToString unknownError)))
   \<and> ((\<exists>r. checkInitializedElmAppsStatus COMPILATION_MODE ProgramTypes window
                = DebuggerModeStatus (Disabled r))
      \<longleftrightarrow> (\<exists>programTypes. ProgramTypes window = Inr programTypes \<and> programTypes \<noteq> []
            \<and> (\<forall>p \<in> set programTypes. p = Platform_worker \<or> p = Html)))
   \<and> (checkInitializedElmAppsStatus COMPILATION_MODE ProgramTypes window
         = DebuggerModeStatus (Disabled reason) \<longrightarrow>
      (\<exists>programTypes. ProgramTypes window = Inr programTypes
         \<and> ((\<exists>k. set programTypes = {k}
                 \<and> reason = ''The Elm debugger isn't supported by `'' @ programTypeName k
                     @ ''` programs.'')
            \<or> (\<exists>k1 k2. k1 \<noteq> k2 \<and> set programTypes = {k1, k2} \<and> hd programTypes = k1
                 \<and> reason = ''The Elm debugger isn't supported by `'' @ programTypeName k1
                     @ ''` and `'' @ programTypeName k2 @ ''` programs.''))))"
proof (intro conjI impI)
  assume "ProgramTypes window = Inr []"
  then show "checkInitializedElmAppsStatus COMPILATION_MODE ProgramTypes window
               = NoProgramsAtAll"
    by (simp add: check_Inr)
next
  assume "ProgramTypes window = Inl unknownError"
  then show "checkInitializedElmAppsStatus COMPILATION_MODE ProgramTypes window
        = (if COMPILATION_MODE = proxy then DebuggerModeStatus Enabled
           else DecodeError (possiblyDecodeErrorToString unknownError))"
    by (rule check_Inl)
next
  show "(\<exists>r. checkInitializedElmAppsStatus COMPILATION_MODE ProgramTypes window
                = DebuggerModeStatus (Disabled r))
      \<longleftrightarrow> (\<exists>programTypes. ProgramTypes window = Inr programTypes \<and> programTypes \<noteq> []
            \<and> (\<forall>p \<in> set programTypes. p = Platform_worker \<or> p = Html))"
    by (rule check_Disabled_iff)
next
  assume "checkInitializedElmAppsStatus COMPILATION_MODE ProgramTypes window
         = DebuggerModeStatus (Disabled reason)"
  then show "\<exists>programTypes. ProgramTypes window = Inr programTypes
         \<and> ((\<exists>k. set programTypes = {k}
                 \<and> reason = ''The Elm debugger isn't supported by `'' @ programTypeName k
                     @ ''` programs.'')
            \<or> (\<exists>k1 k2. k1 \<noteq> k2 \<and> set programTypes = {k1, k2} \<and> hd programTypes = k1
                 \<and> reason = ''The Elm debugger isn't supported by `'' @ programTypeName k1
                     @ ''` and `'' @ programTypeName k2 @ ''` programs.''))"
    by (rule check_Disabled_names_kinds)
qed

theorem checkInitializedElmAppsStatus_cases_witness:
  "checkInitializedElmAppsStatus (Mode standard) id (Inr [Html, Platform_worker, Html])
     = DebuggerModeStatus
         (Disabled ''The Elm debugger isn't supported by `Html` and `Platform.worker` programs.'')
   \<and> checkInitializedElmAppsStatus (Mode standard) id (Inr [Html])
     = DebuggerModeStatus (Disabled ''The Elm debugger isn't supported by `Html` programs.'')
   \<and> checkInitializedElmAppsStatus (Mode standard) id (Inr [Html, Browser_element])
     = DebuggerModeStatus Enabled
   \<and> checkInitializedElmAppsStatus (Mode standard) id (Inr []) = NoProgramsAtAll
   \<and> checkInitializedElmAppsStatus (Mode standard) id (Inl (DecoderError ''At root: Elm is missing''))
     = DecodeError ''At root: Elm is missing''
   \<and> checkInitializedElmAppsStatus proxy id (Inl error) = DebuggerModeStatus Enabled"
proof -
  have "checkInitializedElmAppsStatus (Mode standard) id (Inr [Html, Platform_worker, Html])
     = DebuggerModeStatus
         (Disabled ''The Elm debugger isn't supported by `Html` and `Platform.worker` programs.'')"
    by (simp add: checkInitializedElmAppsStatus_def noDebuggerReason_def humanList_def
                  newSet_def setAdd_def)
  moreover have "checkInitializedElmAppsStatus (Mode standard) id (Inr [Html])
     = DebuggerModeStatus (Disabled ''The Elm debugger isn't supported by `Html` programs.'')"
    by (simp add: checkInitializedElmAppsStatus_def noDebuggerReason_def humanList_def
                  newSet_def setAdd_def)
  moreover have "checkInitializedElmAppsStatus (Mode standard) id (Inr [Html, Browser_element])
     = DebuggerModeStatus Enabled"
    by (simp add: checkInitializedElmAppsStatus_def)
  moreover have "checkInitializedElmAppsStatus (Mode standard) id
       (Inr [] :: Thrown + ProgramType list) = NoProgramsAtAll"
    using checkInitializedElmAppsStatus_cases
            [where ProgramTypes = id and window = "Inr []"
               and COMPILATION_MODE = "Mode standard"]
    by simp
  moreover have "checkInitializedElmAppsStatus (Mode standard) id
       (Inl (DecoderError ''At root: Elm is missing'') :: Thrown + ProgramType list)
     = DecodeError ''At root: Elm is missing''"
    using checkInitializedElmAppsStatus_cases
            [where ProgramTypes = id and window = "Inl (DecoderError ''At root: Elm is missing'')"
               and unknownError = "DecoderError ''At root: Elm is missing''"
               and COMPILATION_MODE = "Mode standard"]
    by simp
  moreover have "checkInitializedElmAppsStatus proxy id (Inl error :: Thrown + ProgramType list)
     = DebuggerModeStatus Enabled"
    using checkInitializedElmAppsStatus_cases
            [where ProgramTypes = id and window = "Inl error" and unknownError = error
               and COMPILATION_MODE = proxy]
    by simp
  ultimately show ?thesis by (intro conjI)
qed

section \<open>The proxy: which accesses throw\<close>

text \<open>
  A property that exists and holds \<open>undefined\<close>: the \<open>has\<close> trap reports it, the \<open>get\<close>
  trap throws, because it tells presence by \<open>value !== undefined\<close>.
\<close>

theorem existing_undefined_property_counterexample:
  "Reflect_has (JSObject [(StringKey ''Main'', Undefined :: nat JSValue)] None) (StringKey ''Main'')
   \<and> elmProxy_has (JSObject [(StringKey ''Main'', Undefined :: nat JSValue)] None)
        (StringKey ''Main'') = Inr True
   \<and> elmProxy_get (JSObject [(StringKey ''Main'', Undefined :: nat JSValue)] None)
        (StringKey ''Main'') = Inl error"
  by (simp add: elmProxy_has_def elmProxy_get_def startsWith_def)

lemma Reflect_get_absent: "\<not> Reflect_has target property \<Longrightarrow> Reflect_get target property = Undefined"
  by (induction target property rule: Reflect_has.induct) (simp split: option.splits)

text \<open>
  Claim C9, as amended. Absent means found neither on the target nor on its prototype
  chain. Reading an absent property whose name does not start with an underscore throws
  \<open>error\<close>; so do a presence check of an absent property, a descriptor read of a property
  the target does not own, and every key enumeration. A read of a property whose value
  is not \<open>undefined\<close> returns that value; a presence check of a property that exists
  returns true, a descriptor read of an own property returns its descriptor. A name that
  starts with an underscore can always be read, with the value found or \<open>undefined\<close>. A
  property that exists but holds \<open>undefined\<close> is read like an absent one.
\<close>

theorem elmProxy_traps:
  "(\<not> Reflect_has target property \<and> \<not> startsWith (propertyToString property) ''_''
      \<longrightarrow> elmProxy_get target property = Inl error)
   \<and> (\<not> Reflect_has target property \<longrightarrow> elmProxy_has target property = Inl error)
   \<and> (Reflect_getOwnPropertyDescriptor target property = None
      \<longrightarrow> elmProxy_getOwnPropertyDescriptor target property = Inl error)
   \<and> elmProxy_ownKeys target = Inl error
   \<and> (Reflect_get target property = Value v
      \<longrightarrow> elmProxy_get target property = Inr (Value v))
   \<and> (Reflect_has target property \<longrightarrow> elmProxy_has target property = Inr True)
   \<and> (Reflect_getOwnPropertyDescriptor target property = Some descriptor
      \<longrightarrow> elmProxy_getOwnPropertyDescriptor target property = Inr descriptor)
   \<and> (startsWith (propertyToString property) ''_''
      \<longrightarrow> elmProxy_get target property = Inr (Reflect_get target property))
   \<and> (Reflect_get target property = Undefined \<and> \<not> startsWith (propertyToString property) ''_''
      \<longrightarrow> elmProxy_get target property = Inl error)"
proof (intro conjI impI)
  assume "\<not> Reflect_has target property \<and> \<not> startsWith (propertyToString property) ''_''"
  then show "elmProxy_get target property = Inl error"
    by (simp add: elmProxy_get_def Reflect_get_absent)
next
  assume "\<not> Reflect_has target property"
  then show "elmProxy_has target property = Inl error" by (simp add: elmProxy_has_def)
next
  assume "Reflect_getOwnPropertyDescriptor target property = None"
  then show "elmProxy_getOwnPropertyDescriptor target property = Inl error"
    by (simp add: elmProxy_getOwnPropertyDescriptor_def)
next
  show "elmProxy_ownKeys target = Inl error" by (simp add: elmProxy_ownKeys_def)
next
  assume "Reflect_get target property = Value v"
  then show "elmProxy_get target property = Inr (Value v)" by (simp add: elmProxy_get_def)
next
  assume "Reflect_has target property"
  then show "elmProxy_has target property = Inr True" by (simp add: elmProxy_has_def)
next
  assume "Reflect_getOwnPropertyDescriptor target property = Some descriptor"
  then show "elmProxy_getOwnPropertyDescriptor target property = Inr descriptor"
    by (simp add: elmProxy_getOwnPropertyDescriptor_def)
next
  assume "startsWith (propertyToString property) ''_''"
  then show "elmProxy_get target property = Inr (Reflect_get target property)"
    by (simp add: elmProxy_get_def)
next
  assume "Reflect_get target property = Undefined
          \<and> \<not> startsWith (propertyToString property) ''_''"
  then show "elmProxy_get target property = Inl error" by (simp add: elmProxy_get_def)
qed

theorem elmProxy_traps_witness:
  "elmProxy_get (elmProxyTarget None (JSObject [(StringKey ''toString'', Value (0::nat))] None))
      (StringKey ''Main'') = Inl error
   \<and> elmProxy_has (elmProxyTarget None (JSObject [(StringKey ''toString'', Value (0::nat))] None))
      (StringKey ''Main'') = Inl error
   \<and> elmProxy_getOwnPropertyDescriptor
      (elmProxyTarget None (JSObject [(StringKey ''toString'', Value (0::nat))] None))
      (StringKey ''Main'') = Inl error
   \<and> elmProxy_get (elmProxyTarget None (JSObject [(StringKey ''toString'', Value (0::nat))] None))
      (StringKey ''_isMockFunction'') = Inr Undefined
   \<and> elmProxy_get
      (elmProxyTarget (Some (JSObject [(StringKey ''Main'', Value (7::nat))] None))
         (JSObject [] None))
      (StringKey ''Main'') = Inr (Value 7)
   \<and> elmProxy_has
      (elmProxyTarget (Some (JSObject [(StringKey ''Main'', Value (7::nat))] None))
         (JSObject [] None))
      (StringKey ''Main'') = Inr True
   \<and> elmProxy_getOwnPropertyDescriptor
      (elmProxyTarget (Some (JSObject [(StringKey ''Main'', Value (7::nat))] None))
         (JSObject [] None))
      (StringKey ''Main'') = Inr (DataDescriptor (Value 7))"
  using elmProxy_traps
          [where target = "elmProxyTarget None
                             (JSObject [(StringKey ''toString'', Value (0::nat))] None)"
             and property = "StringKey ''Main''"]
        elmProxy_traps
          [where target = "elmProxyTarget None
                             (JSObject [(StringKey ''toString'', Value (0::nat))] None)"
             and property = "StringKey ''_isMockFunction''"]
        elmProxy_traps
          [where target = "elmProxyTarget
                             (Some (JSObject [(StringKey ''Main'', Value (7::nat))] None))
                             (JSObject [] None)"
             and property = "StringKey ''Main''" and v = 7
             and descriptor = "DataDescriptor (Value 7)"]
  by (simp add: elmProxyTarget_def startsWith_def)

end
